theory Spec2Isabelle
  imports Main
begin

section \<open>JavaScript values that the verifier computes with\<close>

text \<open>
  The administrator flag of the object literal built by the verifier is the value of
  \<^verbatim>\<open>existingUser?.isAdmin || (adminSub && profile.sub === adminSub)\<close>.
  In JavaScript \<^verbatim>\<open>||\<close> and \<^verbatim>\<open>&&\<close> return one of their operands, so that
  value is \<^verbatim>\<open>undefined\<close>, a string or a boolean. Only these three kinds of value occur.
\<close>

datatype jsval = JUndefined | JBool bool | JString string

fun truthy :: "jsval \<Rightarrow> bool" where
  "truthy JUndefined = False"
| "truthy (JBool b) = b"
| "truthy (JString s) = (s \<noteq> [])"

definition js_or :: "jsval \<Rightarrow> jsval \<Rightarrow> jsval" where
  "js_or a b = (if truthy a then a else b)"

definition js_and :: "jsval \<Rightarrow> jsval \<Rightarrow> jsval" where
  "js_and a b = (if truthy a then b else a)"

section \<open>Data model\<close>

text \<open>
  \<^verbatim>\<open>profile: UserinfoResponse\<close>, the claims handed to the verifier. The verifier reads
  \<^verbatim>\<open>sub\<close>, \<^verbatim>\<open>name\<close>, \<^verbatim>\<open>email\<close>, \<^verbatim>\<open>email_verified\<close> and \<^verbatim>\<open>picture\<close>. The two claims
  whose absence the code handles (\<^verbatim>\<open>!profile.email_verified\<close>, \<^verbatim>\<open>profile.picture || ''\<close>)
  are optional; \<open>None\<close> is \<^verbatim>\<open>undefined\<close>.
\<close>

record profile =
  sub :: string
  name :: string
  email :: string
  email_verified :: "bool option"
  picture :: "string option"

text \<open>
  The \<^verbatim>\<open>User\<close> entity (\<^verbatim>\<open>./entities/user\<close>; its declaration is not among the sources).
  The fields are the five properties the verifier assigns: \<^verbatim>\<open>id\<close>, \<^verbatim>\<open>name\<close>, \<^verbatim>\<open>email\<close>,
  \<^verbatim>\<open>profileImage\<close>, \<^verbatim>\<open>isAdmin\<close> (the first three are prefixed here, since \<open>id\<close> is a
  constant of HOL and \<open>name\<close>, \<open>email\<close> are fields of \<open>profile\<close>). A stored row is a
  \<open>bool user\<close>. The object literal that the verifier casts with \<^verbatim>\<open>as User\<close> is a
  \<open>jsval user\<close>: the cast does not turn its \<^verbatim>\<open>isAdmin\<close> into a boolean.
\<close>

record 'a user =
  user_id :: string
  user_name :: string
  user_email :: string
  profileImage :: string
  isAdmin :: 'a

text \<open>
  The \<^verbatim>\<open>Site\<close> entity (\<^verbatim>\<open>./entities/site\<close>, not among the sources): the handler reads
  \<^verbatim>\<open>domain\<close> and the relation \<^verbatim>\<open>editors\<close>, which the query loads
  (\<^verbatim>\<open>relations: ['editors']\<close>).
\<close>

record site =
  domain :: string
  editors :: "bool user list"

section \<open>The repository of users\<close>

text \<open>
  The table of \<^verbatim>\<open>User\<close> rows is a list; \<^verbatim>\<open>id\<close> is the primary key.
  \<^verbatim>\<open>findOne({ where: { email }, select: [...] })\<close> returns the first row with that email,
  populated with the selected columns only: every other property of the returned object
  is \<^verbatim>\<open>undefined\<close>.
\<close>

datatype user_column = Col_id | Col_name | Col_email | Col_profileImage | Col_isAdmin

fun column_value :: "bool user \<Rightarrow> user_column \<Rightarrow> jsval" where
  "column_value r Col_id = JString (user_id r)"
| "column_value r Col_name = JString (user_name r)"
| "column_value r Col_email = JString (user_email r)"
| "column_value r Col_profileImage = JString (profileImage r)"
| "column_value r Col_isAdmin = JBool (isAdmin r)"

definition load_user :: "user_column list \<Rightarrow> bool user \<Rightarrow> user_column \<Rightarrow> jsval" where
  "load_user select r c = (if c \<in> set select then column_value r c else JUndefined)"

definition findOne_by_email ::
  "bool user list \<Rightarrow> string \<Rightarrow> user_column list \<Rightarrow> (user_column \<Rightarrow> jsval) option" where
  "findOne_by_email db e select =
     map_option (load_user select) (find (\<lambda>r. user_email r = e) db)"

text \<open>
  \<^verbatim>\<open>findOneOrFail(userId)\<close> looks a row up by its primary key and rejects when there is
  none.
\<close>

datatype db_error = EntityNotFound | UniqueViolation

definition findOneOrFail :: "bool user list \<Rightarrow> string \<Rightarrow> db_error + bool user" where
  "findOneOrFail db i =
     (case find (\<lambda>r. user_id r = i) db of
        None \<Rightarrow> Inl EntityNotFound
      | Some r \<Rightarrow> Inr r)"

text \<open>
  How a property of the object handed to \<^verbatim>\<open>save\<close> reaches the boolean column
  \<^verbatim>\<open>isAdmin\<close>: a property that is \<^verbatim>\<open>undefined\<close> is left out of the write, so the
  column keeps the value \<open>old\<close>; any other value is stored as its truth value.
\<close>

definition stored_flag :: "bool \<Rightarrow> jsval \<Rightarrow> bool" where
  "stored_flag old v = (case v of JUndefined \<Rightarrow> old | _ \<Rightarrow> truthy v)"

definition write_row :: "bool \<Rightarrow> jsval user \<Rightarrow> bool user" where
  "write_row old u =
     \<lparr>user_id = user_id u, user_name = user_name u, user_email = user_email u,
      profileImage = profileImage u, isAdmin = stored_flag old (isAdmin u)\<rparr>"

text \<open>
  Modelled from the spec: \<^verbatim>\<open>save(user)\<close> of the persistent User store, which is
  ``insert-or-update, with email uniqueness enforced at the storage layer''; the
  declaration of the entity, with the constraints and defaults of its columns, is not
  among the sources.
  The row is found by the primary key \<^verbatim>\<open>id\<close>. A write that would give two rows the
  same email is rejected and changes nothing. An update keeps the stored administrator
  flag where the object has none; an inserted row without one is no administrator.
\<close>

definition save :: "bool user list \<Rightarrow> jsval user \<Rightarrow> db_error + bool user list" where
  "save db u =
     (if \<exists>r \<in> set db. user_id r \<noteq> user_id u \<and> user_email r = user_email u
      then Inl UniqueViolation
      else if \<exists>r \<in> set db. user_id r = user_id u
      then Inr (map (\<lambda>r. if user_id r = user_id u then write_row (isAdmin r) u else r) db)
      else Inr (db @ [write_row False u]))"

section \<open>The verifier\<close>

text \<open>
  The two errors the verifier passes to \<^verbatim>\<open>done\<close>:
  \<open>EmailNotVerified\<close> is \<^verbatim>\<open>Error("OIDC: the user's email address is not verified.")\<close>,
  \<open>EmailConflict\<close> is \<^verbatim>\<open>Error("OIDC: the user's email address is already in use.")\<close>.
\<close>

datatype verify_error = EmailNotVerified | EmailConflict

text \<open>
  What one run of the verifier does: \<open>outcome\<close> is the argument of its call of
  \<^verbatim>\<open>done\<close> (\<open>Inl\<close> for \<^verbatim>\<open>done(error)\<close>, \<open>Inr\<close> for \<^verbatim>\<open>done(null, user)\<close>), and
  \<open>saved\<close> is the object it passed to \<^verbatim>\<open>getRepository(User).save\<close>, if it got there.
  The promise that \<^verbatim>\<open>save\<close> returns is neither awaited nor given a handler, so
  \<open>outcome\<close> cannot depend on what the store answers.
\<close>

record verifier_result =
  outcome :: "verify_error + jsval user"
  saved :: "jsval user option"

definition adminSub_value :: "string option \<Rightarrow> jsval" where
  "adminSub_value adminSub = (case adminSub of None \<Rightarrow> JUndefined | Some a \<Rightarrow> JString a)"

definition existing_isAdmin :: "(user_column \<Rightarrow> jsval) option \<Rightarrow> jsval" where
  "existing_isAdmin existingUser =
     (case existingUser of None \<Rightarrow> JUndefined | Some eu \<Rightarrow> eu Col_isAdmin)"

definition verifier :: "string option \<Rightarrow> bool user list \<Rightarrow> profile \<Rightarrow> verifier_result" where
  "verifier adminSub db p =
     (if email_verified p \<noteq> Some True
      then \<lparr>outcome = Inl EmailNotVerified, saved = None\<rparr>
      else
        let existingUser = findOne_by_email db (email p) [Col_id] in
        if (case existingUser of None \<Rightarrow> False | Some eu \<Rightarrow> eu Col_id \<noteq> JString (sub p))
        then \<lparr>outcome = Inl EmailConflict, saved = None\<rparr>
        else
          let u = \<lparr>user_id = sub p, user_name = name p, user_email = email p,
                   profileImage = (case picture p of None \<Rightarrow> [] | Some i \<Rightarrow> i),
                   isAdmin = js_or (existing_isAdmin existingUser)
                               (js_and (adminSub_value adminSub)
                                  (JBool (adminSub = Some (sub p))))\<rparr>
          in \<lparr>outcome = Inr u, saved = Some u\<rparr>)"

text \<open>
  The store once the promise of \<^verbatim>\<open>save\<close> has settled: a rejected write leaves it as it
  was.
\<close>

definition settle :: "bool user list \<Rightarrow> jsval user option \<Rightarrow> bool user list" where
  "settle db w =
     (case w of
        None \<Rightarrow> db
      | Some u \<Rightarrow> (case save db u of Inl e \<Rightarrow> db | Inr db' \<Rightarrow> db'))"

text \<open>
  \<open>reconcile\<close> is one run of the verifier with nothing else touching the store: the
  argument of \<^verbatim>\<open>done\<close> and the store afterwards.
\<close>

definition reconcile ::
  "string option \<Rightarrow> bool user list \<Rightarrow> profile \<Rightarrow> (verify_error + jsval user) \<times> bool user list" where
  "reconcile adminSub db p =
     (let r = verifier adminSub db p in (outcome r, settle db (saved r)))"

text \<open>
  The same run when other requests reach the store while the verifier is suspended at
  \<^verbatim>\<open>await ... findOne\<close>: \<open>db\<close> is the table the lookup reads, \<open>db'\<close> the table
  at the moment the write arrives.
\<close>

definition reconcile_at ::
  "string option \<Rightarrow> bool user list \<Rightarrow> bool user list \<Rightarrow> profile
     \<Rightarrow> (verify_error + jsval user) \<times> bool user list" where
  "reconcile_at adminSub db db' p =
     (let r = verifier adminSub db p in (outcome r, settle db' (saved r)))"

section \<open>Sessions\<close>

text \<open>
  \<^verbatim>\<open>passport.serializeUser((user, done) => done(null, user.id))\<close> and
  \<^verbatim>\<open>passport.deserializeUser\<close>, which awaits \<^verbatim>\<open>findOneOrFail(userId)\<close> and passes
  the row, or the error it caught, to \<^verbatim>\<open>done\<close>.
\<close>

definition serializeUser :: "'a user \<Rightarrow> string" where
  "serializeUser u = user_id u"

definition deserializeUser :: "bool user list \<Rightarrow> string \<Rightarrow> db_error + bool user" where
  "deserializeUser db userId =
     (case findOneOrFail db userId of
        Inr u \<Rightarrow> Inr u
      | Inl e \<Rightarrow> Inl e)"

section \<open>The handler of /oidc-callback\<close>

text \<open>
  \<^verbatim>\<open>url.parse\<close> belongs to the platform, so the handler takes as a parameter the
  function that maps a string to the \<^verbatim>\<open>host\<close> of its parse (\<open>None\<close> is \<^verbatim>\<open>null\<close>).
  The platform documents that \<^verbatim>\<open>url.parse\<close> throws a \<^verbatim>\<open>URIError\<close> when the
  credentials of the URL cannot be decoded; the handler does not catch it.
\<close>

datatype js_exn = URIError

text \<open>
  \<^verbatim>\<open>findOne({ where: { domain: host }, relations: ['editors'] })\<close> on the table of
  sites. A \<^verbatim>\<open>null\<close> host selects the rows whose domain is null, and no row has one.
\<close>

definition findOne_site :: "site list \<Rightarrow> string option \<Rightarrow> site option" where
  "findOne_site sites host =
     (case host of
        None \<Rightarrow> None
      | Some h \<Rightarrow> find (\<lambda>s. domain s = h) sites)"

definition startsWith :: "string \<Rightarrow> string \<Rightarrow> bool" where
  "startsWith s pre = (take (length pre) s = pre)"

text \<open>
  What the handler does with one request: the hosts it queried the table of sites for,
  in order, and either the exception that escaped or the argument of
  \<^verbatim>\<open>res.redirect\<close>. The arguments are the table of sites, \<^verbatim>\<open>req.user\<close> and
  \<^verbatim>\<open>req.query.state\<close> (\<open>None\<close> when the request has none).
\<close>

record handled =
  site_lookups :: "string option list"
  response :: "js_exn + string"

definition oidc_callback ::
  "(string \<Rightarrow> js_exn + string option) \<Rightarrow> site list \<Rightarrow> jsval user option \<Rightarrow> string option
     \<Rightarrow> handled" where
  "oidc_callback url_parse_host sites req_user state =
     (let redirectUrl = (case state of None \<Rightarrow> ''/'' | Some s \<Rightarrow> if s = [] then ''/'' else s) in
      if redirectUrl \<noteq> [] \<and> \<not> startsWith redirectUrl ''/''
      then
        (case url_parse_host redirectUrl of
           Inl e \<Rightarrow> \<lparr>site_lookups = [], response = Inl e\<rparr>
         | Inr host \<Rightarrow>
             \<lparr>site_lookups = [host],
              response = Inr
                (case (req_user, findOne_site sites host) of
                   (Some u, Some s) \<Rightarrow>
                     if find (\<lambda>user. user_id user = user_id u) (editors s) = None
                     then ''/'' else redirectUrl
                 | _ \<Rightarrow> ''/'')\<rparr>)
      else \<lparr>site_lookups = [], response = Inr redirectUrl\<rparr>)"

text \<open>
  What \<^verbatim>\<open>url.parse\<close> yields as \<^verbatim>\<open>host\<close> for the strings of the concrete cases
  below: the host of the one absolute URL, an exception for the URL whose credentials
  are a lone percent sign, which cannot be decoded, and \<^verbatim>\<open>null\<close> for the strings
  without a scheme (\<^verbatim>\<open>dashboard\<close>). It stands for \<^verbatim>\<open>url.parse\<close> on these strings
  only.
\<close>

definition example_hosts :: "string \<Rightarrow> js_exn + string option" where
  "example_hosts s =
     (if s = ''https://cms.example/admin'' then Inr (Some ''cms.example'')
      else if s = ''https://%@cms.example/'' then Inl URIError
      else Inr None)"

section \<open>Rejections\<close>

text \<open>
  Claim C3. When the email-verified flag of the claims is false (or absent), the verifier
  calls \<^verbatim>\<open>done\<close> with the not-verified error, passes nothing to \<^verbatim>\<open>save\<close>, and the
  store of users is the same afterwards.
\<close>

theorem reconcile_email_not_verified:
  assumes "email_verified p \<noteq> Some True"
  shows "reconcile adminSub db p = (Inl EmailNotVerified, db)
         \<and> saved (verifier adminSub db p) = None"
  using assms by (simp add: reconcile_def verifier_def settle_def)

theorem reconcile_email_not_verified_witness:
  "email_verified \<lparr>sub = ''u1'', name = ''Ann'', email = ''a@x.com'',
                   email_verified = Some False, picture = None\<rparr> \<noteq> Some True
   \<and> reconcile (Some ''u1'') []
        \<lparr>sub = ''u1'', name = ''Ann'', email = ''a@x.com'',
         email_verified = Some False, picture = None\<rparr>
       = (Inl EmailNotVerified, [])
   \<and> saved (verifier (Some ''u1'') []
        \<lparr>sub = ''u1'', name = ''Ann'', email = ''a@x.com'',
         email_verified = Some False, picture = None\<rparr>) = None"
  using reconcile_email_not_verified
    [of "\<lparr>sub = ''u1'', name = ''Ann'', email = ''a@x.com'',
          email_verified = Some False, picture = None\<rparr>" "Some ''u1''" "[]"]
  by simp

text \<open>
  In a table whose emails are pairwise distinct, the lookup by email returns the one row
  that has the email.
\<close>

lemma find_by_distinct_key:
  "distinct (map f xs) \<Longrightarrow> x \<in> set xs \<Longrightarrow> find (\<lambda>y. f y = f x) xs = Some x"
proof (induction xs)
  case Nil
  then show ?case by simp
next
  case (Cons a xs)
  show ?case
  proof (cases "a = x")
    case True
    then show ?thesis by simp
  next
    case False
    with Cons.prems have mem: "x \<in> set xs" by simp
    from Cons.prems have "f a \<notin> f ` set xs" by simp
    with mem have "f a \<noteq> f x" by blast
    moreover from Cons.prems have "distinct (map f xs)" by simp
    ultimately show ?thesis using Cons.IH mem by simp
  qed
qed

text \<open>
  Claim C4. The claims carry a verified email, the emails of the stored users are pairwise
  distinct (the invariant of the table), and a stored user has the email of the claims
  under another identifier than their subject. Then the verifier calls \<^verbatim>\<open>done\<close> with
  the email-in-use error, passes nothing to \<^verbatim>\<open>save\<close>, and the store is the same
  afterwards.
\<close>

theorem reconcile_email_conflict:
  assumes "email_verified p = Some True"
    and "distinct (map user_email db)"
    and "r \<in> set db"
    and "user_email r = email p"
    and "user_id r \<noteq> sub p"
  shows "reconcile adminSub db p = (Inl EmailConflict, db)
         \<and> saved (verifier adminSub db p) = None"
proof -
  have "find (\<lambda>y. user_email y = user_email r) db = Some r"
    using assms(2,3) by (rule find_by_distinct_key)
  then have found: "find (\<lambda>y. user_email y = email p) db = Some r"
    using assms(4) by simp
  have "verifier adminSub db p = \<lparr>outcome = Inl EmailConflict, saved = None\<rparr>"
    using assms(1,5) found
    by (simp add: verifier_def findOne_by_email_def load_user_def)
  then show ?thesis
    by (simp add: reconcile_def settle_def)
qed

theorem reconcile_email_conflict_witness:
  "reconcile None
     [\<lparr>user_id = ''u1'', user_name = ''Ann'', user_email = ''a@x.com'',
       profileImage = [], isAdmin = False\<rparr>]
     \<lparr>sub = ''u2'', name = ''Bob'', email = ''a@x.com'',
      email_verified = Some True, picture = None\<rparr>
   = (Inl EmailConflict,
      [\<lparr>user_id = ''u1'', user_name = ''Ann'', user_email = ''a@x.com'',
        profileImage = [], isAdmin = False\<rparr>])
   \<and> saved (verifier None
        [\<lparr>user_id = ''u1'', user_name = ''Ann'', user_email = ''a@x.com'',
          profileImage = [], isAdmin = False\<rparr>]
        \<lparr>sub = ''u2'', name = ''Bob'', email = ''a@x.com'',
         email_verified = Some True, picture = None\<rparr>) = None"
  using reconcile_email_conflict
    [of "\<lparr>sub = ''u2'', name = ''Bob'', email = ''a@x.com'',
          email_verified = Some True, picture = None\<rparr>"
        "[\<lparr>user_id = ''u1'', user_name = ''Ann'', user_email = ''a@x.com'',
           profileImage = [], isAdmin = False\<rparr>]"
        "\<lparr>user_id = ''u1'', user_name = ''Ann'', user_email = ''a@x.com'',
          profileImage = [], isAdmin = False\<rparr>"
        None]
  by simp

section \<open>Sessions resolve to the stored record\<close>

text \<open>
  Claim C8. What is kept of a user in the session is the identifier alone. Resolving it
  reads the table of the moment: when the identifiers of the table are pairwise distinct
  (the primary key), the result is the row stored under the identifier, whatever the
  other fields of the user were when the session began, and the not-found error when no
  row has the identifier.
\<close>

theorem session_resolves_stored_user:
  assumes "distinct (map user_id db)"
  shows "serializeUser u = user_id u
         \<and> (\<forall>r \<in> set db. user_id r = user_id u \<longrightarrow>
              deserializeUser db (serializeUser u) = Inr r)
         \<and> ((\<forall>r \<in> set db. user_id r \<noteq> user_id u) \<longrightarrow>
              deserializeUser db (serializeUser u) = Inl EntityNotFound)"
proof (intro conjI ballI impI)
  show "serializeUser u = user_id u"
    by (simp add: serializeUser_def)
next
  fix r
  assume r: "r \<in> set db" and same: "user_id r = user_id u"
  have "find (\<lambda>y. user_id y = user_id r) db = Some r"
    using assms r by (rule find_by_distinct_key)
  then show "deserializeUser db (serializeUser u) = Inr r"
    using same by (simp add: deserializeUser_def findOneOrFail_def serializeUser_def)
next
  assume "\<forall>r \<in> set db. user_id r \<noteq> user_id u"
  then have "find (\<lambda>y. user_id y = user_id u) db = None"
    by (simp add: find_None_iff)
  then show "deserializeUser db (serializeUser u) = Inl EntityNotFound"
    by (simp add: deserializeUser_def findOneOrFail_def serializeUser_def)
qed

theorem session_resolves_stored_user_witness:
  "distinct (map user_id
     [\<lparr>user_id = ''u1'', user_name = ''Ann B'', user_email = ''b@x.com'',
       profileImage = [], isAdmin = True\<rparr>])
   \<and> deserializeUser
       [\<lparr>user_id = ''u1'', user_name = ''Ann B'', user_email = ''b@x.com'',
         profileImage = [], isAdmin = True\<rparr>]
       (serializeUser \<lparr>user_id = ''u1'', user_name = ''Ann'', user_email = ''a@x.com'',
                       profileImage = [], isAdmin = JBool False\<rparr>)
     = Inr \<lparr>user_id = ''u1'', user_name = ''Ann B'', user_email = ''b@x.com'',
            profileImage = [], isAdmin = True\<rparr>
   \<and> deserializeUser
       [\<lparr>user_id = ''u1'', user_name = ''Ann B'', user_email = ''b@x.com'',
         profileImage = [], isAdmin = True\<rparr>]
       (serializeUser \<lparr>user_id = ''u9'', user_name = ''Zed'', user_email = ''z@x.com'',
                       profileImage = [], isAdmin = JBool False\<rparr>)
     = Inl EntityNotFound"
  using session_resolves_stored_user
    [of "[\<lparr>user_id = ''u1'', user_name = ''Ann B'', user_email = ''b@x.com'',
           profileImage = [], isAdmin = True\<rparr>]"
        "\<lparr>user_id = ''u1'', user_name = ''Ann'', user_email = ''a@x.com'',
          profileImage = [], isAdmin = JBool False\<rparr>"]
    session_resolves_stored_user
    [of "[\<lparr>user_id = ''u1'', user_name = ''Ann B'', user_email = ''b@x.com'',
           profileImage = [], isAdmin = True\<rparr>]"
        "\<lparr>user_id = ''u9'', user_name = ''Zed'', user_email = ''z@x.com'',
          profileImage = [], isAdmin = JBool False\<rparr>"]
  by (simp add: serializeUser_def)

section \<open>Redirect targets\<close>

lemma startsWith_slash: "startsWith s ''/'' \<longleftrightarrow> s \<noteq> [] \<and> hd s = CHR ''/''"
  by (cases s) (simp_all add: startsWith_def)

text \<open>
  Claim C10. A state that is not empty and begins with a slash, the protocol-relative
  \<^verbatim>\<open>//host/path\<close> included, is the argument of \<^verbatim>\<open>res.redirect\<close> as it is; the
  handler queries the table of sites for nothing, and neither the sites nor the user
  have a part in the result.
\<close>

theorem callback_leading_slash_unchanged:
  assumes "s \<noteq> []" and "hd s = CHR ''/''"
  shows "oidc_callback url_parse_host sites req_user (Some s)
         = \<lparr>site_lookups = [], response = Inr s\<rparr>"
  using assms by (simp add: oidc_callback_def startsWith_slash)

theorem callback_leading_slash_unchanged_witness:
  "''//evil.example/x'' \<noteq> [] \<and> hd ''//evil.example/x'' = CHR ''/''
   \<and> oidc_callback example_hosts [] None (Some ''//evil.example/x'')
     = \<lparr>site_lookups = [], response = Inr ''//evil.example/x''\<rparr>"
  using callback_leading_slash_unchanged
    [of "''//evil.example/x''" example_hosts "[]" None]
  by simp

text \<open>
  The branch that validates: a state that does not begin with a slash is parsed, the
  table of sites is queried once for its host, and the target is kept only for an editor
  of the site found.
\<close>

lemma callback_validating_branch:
  assumes "s \<noteq> []" and "hd s \<noteq> CHR ''/''" and "url_parse_host s = Inr h"
  shows "oidc_callback url_parse_host sites req_user (Some s)
         = \<lparr>site_lookups = [h],
            response = Inr
              (case (req_user, findOne_site sites h) of
                 (Some u, Some st) \<Rightarrow>
                   if find (\<lambda>user. user_id user = user_id u) (editors st) = None
                   then ''/'' else s
               | _ \<Rightarrow> ''/'')\<rparr>"
  using assms by (simp add: oidc_callback_def startsWith_slash)

lemma callback_without_site:
  assumes "s \<noteq> []" and "hd s \<noteq> CHR ''/''" and "url_parse_host s = Inr h"
    and "findOne_site sites h = None"
  shows "response (oidc_callback url_parse_host sites req_user (Some s)) = Inr ''/''"
  using assms by (simp add: callback_validating_branch split: option.splits)

lemma callback_with_site:
  assumes "s \<noteq> []" and "hd s \<noteq> CHR ''/''" and "url_parse_host s = Inr h"
    and "findOne_site sites h = Some st"
  shows "response (oidc_callback url_parse_host sites (Some u) (Some s))
         = Inr (if \<exists>e \<in> set (editors st). user_id e = user_id u then s else ''/'')"
  using assms by (auto simp add: callback_validating_branch find_None_iff)

text \<open>
  Claim C1, at the state \<^verbatim>\<open>//evil.example/x\<close>. A browser resolves this reference to
  the host \<^verbatim>\<open>evil.example\<close>, and no site has that domain. The handler queries
  nothing and redirects to the state as it is, not to the root path.
\<close>

theorem callback_protocol_relative_without_site:
  "oidc_callback example_hosts
     [\<lparr>domain = ''cms.example'',
       editors = [\<lparr>user_id = ''u1'', user_name = ''Ann'', user_email = ''a@x.com'',
                   profileImage = [], isAdmin = False\<rparr>]\<rparr>]
     (Some \<lparr>user_id = ''u1'', user_name = ''Ann'', user_email = ''a@x.com'',
            profileImage = [], isAdmin = JBool False\<rparr>)
     (Some ''//evil.example/x'')
   = \<lparr>site_lookups = [], response = Inr ''//evil.example/x''\<rparr>"
  by (simp add: oidc_callback_def startsWith_def)

text \<open>
  Claim C5, at the state \<^verbatim>\<open>//cms.example/admin\<close>. The site \<^verbatim>\<open>cms.example\<close>
  exists and the user \<^verbatim>\<open>u2\<close> is not among its editors. The handler redirects to the
  state as it is, not to the root path.
\<close>

theorem callback_protocol_relative_non_editor:
  "oidc_callback example_hosts
     [\<lparr>domain = ''cms.example'',
       editors = [\<lparr>user_id = ''u1'', user_name = ''Ann'', user_email = ''a@x.com'',
                   profileImage = [], isAdmin = False\<rparr>]\<rparr>]
     (Some \<lparr>user_id = ''u2'', user_name = ''Bob'', user_email = ''b@x.com'',
            profileImage = [], isAdmin = JBool False\<rparr>)
     (Some ''//cms.example/admin'')
   = \<lparr>site_lookups = [], response = Inr ''//cms.example/admin''\<rparr>"
  by (simp add: oidc_callback_def startsWith_def)






section \<open>The synthesized user\<close>

text \<open>
  The lookup selects the column \<^verbatim>\<open>id\<close> alone, so the \<^verbatim>\<open>isAdmin\<close> of what it
  returns is \<^verbatim>\<open>undefined\<close>, whatever the row holds.
\<close>

lemma existing_isAdmin_not_loaded:
  "existing_isAdmin (findOne_by_email db e [Col_id]) = JUndefined"
  by (cases "find (\<lambda>r. user_email r = e) db")
     (simp_all add: existing_isAdmin_def findOne_by_email_def load_user_def)

text \<open>
  With a verified email and no stored user holding that email under another identifier,
  the verifier passes to \<^verbatim>\<open>done\<close> and to \<^verbatim>\<open>save\<close> the user made of the claims. Its
  administrator flag is the value of \<^verbatim>\<open>adminSub && profile.sub === adminSub\<close>: the
  stored flag has no part in it.
\<close>

lemma verifier_synthesized_user:
  assumes "email_verified p = Some True"
    and "\<forall>r \<in> set db. user_email r = email p \<longrightarrow> user_id r = sub p"
  shows "verifier adminSub db p =
           \<lparr>outcome = Inr \<lparr>user_id = sub p, user_name = name p, user_email = email p,
                           profileImage = (case picture p of None \<Rightarrow> [] | Some i \<Rightarrow> i),
                           isAdmin = js_and (adminSub_value adminSub)
                                       (JBool (adminSub = Some (sub p)))\<rparr>,
            saved = Some \<lparr>user_id = sub p, user_name = name p, user_email = email p,
                          profileImage = (case picture p of None \<Rightarrow> [] | Some i \<Rightarrow> i),
                          isAdmin = js_and (adminSub_value adminSub)
                                      (JBool (adminSub = Some (sub p)))\<rparr>\<rparr>"
proof -
  have no_conflict:
    "\<not> (case findOne_by_email db (email p) [Col_id] of
           None \<Rightarrow> False | Some eu \<Rightarrow> eu Col_id \<noteq> JString (sub p))"
  proof (cases "find (\<lambda>r. user_email r = email p) db")
    case None
    then show ?thesis by (simp add: findOne_by_email_def)
  next
    case (Some r)
    then have "r \<in> set db" and "user_email r = email p"
      by (auto simp add: find_Some_iff)
    with assms(2) have "user_id r = sub p" by blast
    with Some show ?thesis by (simp add: findOne_by_email_def load_user_def)
  qed
  show ?thesis
    using assms(1) no_conflict
    by (simp add: verifier_def Let_def existing_isAdmin_not_loaded js_or_def)
qed

lemma synthesized_flag_truthy:
  "truthy (js_and (adminSub_value adminSub) (JBool (adminSub = Some s)))
   \<longleftrightarrow> adminSub = Some s \<and> s \<noteq> []"
  by (cases adminSub) (auto simp add: js_and_def adminSub_value_def)

text \<open>
  The scenario of the specification: subject \<^verbatim>\<open>abc123\<close>, verified, configured as the
  bootstrap administrator, first login.
\<close>

lemma reconcile_bootstrap_admin:
  "reconcile (Some ''abc123'') []
     \<lparr>sub = ''abc123'', name = ''Ann'', email = ''a@x.com'',
      email_verified = Some True, picture = None\<rparr>
   = (Inr \<lparr>user_id = ''abc123'', user_name = ''Ann'', user_email = ''a@x.com'',
           profileImage = [], isAdmin = JBool True\<rparr>,
      [\<lparr>user_id = ''abc123'', user_name = ''Ann'', user_email = ''a@x.com'',
        profileImage = [], isAdmin = True\<rparr>])"
  by (simp add: Let_def reconcile_def verifier_def findOne_by_email_def existing_isAdmin_def
      js_or_def js_and_def adminSub_value_def settle_def save_def write_row_def
      stored_flag_def)

text \<open>
  Claim C2, at a stored administrator who logs in again. The bootstrap administrator is
  configured as \<^verbatim>\<open>root\<close>; the user \<^verbatim>\<open>u1\<close> is stored as an administrator and
  presents the same verified email. The call succeeds and the row of \<^verbatim>\<open>u1\<close> is
  written back with the administrator flag false.
\<close>

theorem reconcile_clears_admin_flag:
  "reconcile (Some ''root'')
     [\<lparr>user_id = ''u1'', user_name = ''Ann'', user_email = ''a@x.com'',
       profileImage = [], isAdmin = True\<rparr>]
     \<lparr>sub = ''u1'', name = ''Ann'', email = ''a@x.com'',
      email_verified = Some True, picture = None\<rparr>
   = (Inr \<lparr>user_id = ''u1'', user_name = ''Ann'', user_email = ''a@x.com'',
           profileImage = [], isAdmin = JBool False\<rparr>,
      [\<lparr>user_id = ''u1'', user_name = ''Ann'', user_email = ''a@x.com'',
        profileImage = [], isAdmin = False\<rparr>])"
  by (simp add: Let_def reconcile_def verifier_def findOne_by_email_def load_user_def
      existing_isAdmin_def js_or_def js_and_def adminSub_value_def settle_def save_def
      write_row_def stored_flag_def)

text \<open>
  The same loss when the administrator comes back with a new email: the lookup is by
  email, finds no row, and the row of \<^verbatim>\<open>u1\<close> is updated with the flag false.
\<close>

lemma reconcile_clears_admin_flag_new_email:
  "reconcile (Some ''root'')
     [\<lparr>user_id = ''u1'', user_name = ''Ann'', user_email = ''a@x.com'',
       profileImage = [], isAdmin = True\<rparr>]
     \<lparr>sub = ''u1'', name = ''Ann'', email = ''b@x.com'',
      email_verified = Some True, picture = None\<rparr>
   = (Inr \<lparr>user_id = ''u1'', user_name = ''Ann'', user_email = ''b@x.com'',
           profileImage = [], isAdmin = JBool False\<rparr>,
      [\<lparr>user_id = ''u1'', user_name = ''Ann'', user_email = ''b@x.com'',
        profileImage = [], isAdmin = False\<rparr>])"
  by (simp add: Let_def reconcile_def verifier_def findOne_by_email_def load_user_def
      existing_isAdmin_def js_or_def js_and_def adminSub_value_def settle_def save_def
      write_row_def stored_flag_def)

text \<open>
  Claim C7, at an existing record that is an administrator and a subject that is not the
  bootstrap administrator. The claim gives the returned user the administrator flag
  true; the verifier returns it with the flag false.
\<close>

theorem verifier_ignores_stored_admin:
  "outcome (verifier (Some ''abc123'')
     [\<lparr>user_id = ''def456'', user_name = ''Dee'', user_email = ''d@x.com'',
       profileImage = ''https://img.example/d.png'', isAdmin = True\<rparr>]
     \<lparr>sub = ''def456'', name = ''Dee'', email = ''d@x.com'',
      email_verified = Some True, picture = Some ''https://img.example/d.png''\<rparr>)
   = Inr \<lparr>user_id = ''def456'', user_name = ''Dee'', user_email = ''d@x.com'',
          profileImage = ''https://img.example/d.png'', isAdmin = JBool False\<rparr>"
  by (simp add: Let_def verifier_def findOne_by_email_def load_user_def existing_isAdmin_def
      js_or_def js_and_def adminSub_value_def)

section \<open>The write that the store rejects\<close>

text \<open>
  The table keeps its two keys: after a write that the store accepts, identifiers and
  emails are pairwise distinct as before.
\<close>

lemma save_keeps_keys:
  assumes ids: "distinct (map user_id db)"
    and emails: "distinct (map user_email db)"
    and saved: "save db u = Inr db'"
  shows "distinct (map user_id db') \<and> distinct (map user_email db')"
proof -
  have free: "\<forall>r \<in> set db. user_email r = user_email u \<longrightarrow> user_id r = user_id u"
    using saved by (auto simp add: save_def split: if_splits)
  show ?thesis
  proof (cases "\<exists>r \<in> set db. user_id r = user_id u")
    case False
    with saved free have db': "db' = db @ [write_row False u]"
      by (auto simp add: save_def split: if_splits)
    from False have "user_id u \<notin> user_id ` set db" by force
    moreover from False free have "user_email u \<notin> user_email ` set db" by force
    ultimately show ?thesis
      using ids emails by (simp add: db' write_row_def)
  next
    case True
    define g where "g = (\<lambda>r. if user_id r = user_id u then write_row (isAdmin r) u else r)"
    from True saved free have db': "db' = map g db"
      by (auto simp add: save_def g_def split: if_splits)
    have same_id: "user_id (g r) = user_id r" for r
      by (simp add: g_def write_row_def)
    have inj_id: "inj_on user_id (set db)" and dist: "distinct db"
      using ids by (simp_all add: distinct_map)
    have inj_email: "inj_on user_email (set db)"
      using emails by (simp add: distinct_map)
    have "inj_on (\<lambda>r. user_email (g r)) (set db)"
    proof (rule inj_onI)
      fix a b
      assume a: "a \<in> set db" and b: "b \<in> set db"
        and eq: "user_email (g a) = user_email (g b)"
      show "a = b"
      proof (cases "user_id a = user_id u")
        case ida: True
        show ?thesis
        proof (cases "user_id b = user_id u")
          case True
          with ida a b inj_id show ?thesis by (simp add: inj_on_def)
        next
          case False
          with ida eq have "user_email b = user_email u"
            by (simp add: g_def write_row_def)
          with free b False show ?thesis by blast
        qed
      next
        case ida: False
        show ?thesis
        proof (cases "user_id b = user_id u")
          case True
          with ida eq have "user_email a = user_email u"
            by (simp add: g_def write_row_def)
          with free a ida show ?thesis by blast
        next
          case False
          with ida eq have "user_email a = user_email b"
            by (simp add: g_def)
          with a b inj_email show ?thesis by (simp add: inj_on_def)
        qed
      qed
    qed
    with dist have "distinct (map (\<lambda>r. user_email (g r)) db)"
      by (simp add: distinct_map)
    moreover have "map user_id db' = map user_id db"
      by (simp add: db' same_id)
    moreover have "map user_email db' = map (\<lambda>r. user_email (g r)) db"
      by (simp add: db')
    ultimately show ?thesis using ids by simp
  qed
qed

text \<open>
  When nothing else touches the store between the lookup and the write, the store accepts
  every write the verifier issues: only a request that runs in between can make the
  uniqueness constraint fire.
\<close>

lemma undisturbed_write_accepted:
  assumes "distinct (map user_email db)"
    and "saved (verifier adminSub db p) = Some u"
  shows "\<exists>db'. save db u = Inr db'"
proof -
  from assms(2) have u: "user_id u = sub p" "user_email u = email p"
    by (auto simp add: verifier_def Let_def split: if_splits)
  from assms(2) have ok:
    "\<not> (case findOne_by_email db (email p) [Col_id] of
           None \<Rightarrow> False | Some eu \<Rightarrow> eu Col_id \<noteq> JString (sub p))"
    by (auto simp add: verifier_def Let_def split: if_splits)
  have "\<forall>r \<in> set db. user_email r = email p \<longrightarrow> user_id r = sub p"
  proof (intro ballI impI)
    fix r
    assume r: "r \<in> set db" and e: "user_email r = email p"
    have "find (\<lambda>y. user_email y = user_email r) db = Some r"
      using assms(1) r by (rule find_by_distinct_key)
    with e ok show "user_id r = sub p"
      by (simp add: findOne_by_email_def load_user_def)
  qed
  with u show ?thesis
    by (auto simp add: save_def)
qed

text \<open>
  Claim C6 as it is stated fails. The lookup of \<^verbatim>\<open>u1\<close> with the email
  \<^verbatim>\<open>a@x.com\<close> reads an empty table; before its write arrives, a concurrent first
  login has stored \<^verbatim>\<open>u2\<close> with the same email. The store rejects the write, and the
  verifier has passed the user \<^verbatim>\<open>u1\<close> to \<^verbatim>\<open>done\<close>, not an error.
\<close>

theorem rejected_write_counterexample:
  "saved (verifier None []
     \<lparr>sub = ''u1'', name = ''Ann'', email = ''a@x.com'',
      email_verified = Some True, picture = None\<rparr>)
   = Some \<lparr>user_id = ''u1'', user_name = ''Ann'', user_email = ''a@x.com'',
           profileImage = [], isAdmin = JUndefined\<rparr>
   \<and> save [\<lparr>user_id = ''u2'', user_name = ''Bob'', user_email = ''a@x.com'',
            profileImage = [], isAdmin = False\<rparr>]
        \<lparr>user_id = ''u1'', user_name = ''Ann'', user_email = ''a@x.com'',
         profileImage = [], isAdmin = JUndefined\<rparr>
     = Inl UniqueViolation
   \<and> fst (reconcile_at None []
        [\<lparr>user_id = ''u2'', user_name = ''Bob'', user_email = ''a@x.com'',
          profileImage = [], isAdmin = False\<rparr>]
        \<lparr>sub = ''u1'', name = ''Ann'', email = ''a@x.com'',
         email_verified = Some True, picture = None\<rparr>)
     \<noteq> Inl EmailConflict"
  by (simp add: Let_def reconcile_at_def verifier_def findOne_by_email_def
      existing_isAdmin_def js_or_def js_and_def adminSub_value_def save_def)

text \<open>
  Claim C6, amended. When the uniqueness constraint of the store rejects the write, the
  store is left as it was, and the verifier, which does not wait for the write, has
  passed the synthesized user to \<^verbatim>\<open>done\<close> as the authenticated identity: the call is
  not turned into a rejection.
\<close>

theorem rejected_write_not_observed:
  assumes "saved (verifier adminSub db p) = Some u"
    and "save db' u = Inl UniqueViolation"
  shows "reconcile_at adminSub db db' p = (Inr u, db')"
proof -
  from assms(1) have "outcome (verifier adminSub db p) = Inr u"
    by (auto simp add: verifier_def Let_def split: if_splits)
  with assms show ?thesis
    by (simp add: reconcile_at_def settle_def)
qed

theorem rejected_write_not_observed_witness:
  "saved (verifier None []
     \<lparr>sub = ''u1'', name = ''Ann'', email = ''a@x.com'',
      email_verified = Some True, picture = None\<rparr>)
   = Some \<lparr>user_id = ''u1'', user_name = ''Ann'', user_email = ''a@x.com'',
           profileImage = [], isAdmin = JUndefined\<rparr>
   \<and> save [\<lparr>user_id = ''u2'', user_name = ''Bob'', user_email = ''a@x.com'',
            profileImage = [], isAdmin = False\<rparr>]
        \<lparr>user_id = ''u1'', user_name = ''Ann'', user_email = ''a@x.com'',
         profileImage = [], isAdmin = JUndefined\<rparr>
     = Inl UniqueViolation
   \<and> reconcile_at None []
        [\<lparr>user_id = ''u2'', user_name = ''Bob'', user_email = ''a@x.com'',
          profileImage = [], isAdmin = False\<rparr>]
        \<lparr>sub = ''u1'', name = ''Ann'', email = ''a@x.com'',
         email_verified = Some True, picture = None\<rparr>
     = (Inr \<lparr>user_id = ''u1'', user_name = ''Ann'', user_email = ''a@x.com'',
             profileImage = [], isAdmin = JUndefined\<rparr>,
        [\<lparr>user_id = ''u2'', user_name = ''Bob'', user_email = ''a@x.com'',
          profileImage = [], isAdmin = False\<rparr>])"
proof -
  have w: "saved (verifier None []
             \<lparr>sub = ''u1'', name = ''Ann'', email = ''a@x.com'',
              email_verified = Some True, picture = None\<rparr>)
           = Some \<lparr>user_id = ''u1'', user_name = ''Ann'', user_email = ''a@x.com'',
                   profileImage = [], isAdmin = JUndefined\<rparr>"
    by (simp add: Let_def verifier_def findOne_by_email_def existing_isAdmin_def
        js_or_def js_and_def adminSub_value_def)
  have r: "save [\<lparr>user_id = ''u2'', user_name = ''Bob'', user_email = ''a@x.com'',
                  profileImage = [], isAdmin = False\<rparr>]
             \<lparr>user_id = ''u1'', user_name = ''Ann'', user_email = ''a@x.com'',
              profileImage = [], isAdmin = JUndefined\<rparr>
           = Inl UniqueViolation"
    by (simp add: save_def)
  show ?thesis
    using w r rejected_write_not_observed [OF w r] by simp
qed

end
